theory Spec2Isabelle
  imports Complex_Main "HOL-Library.Word" "HOL-Library.Sublist"
begin

text \<open>
  A model of the live-transcription page: the recorder component
  (\<open>components/AudioRecorder.tsx\<close>, and its later revision \<open>unnamed/part_001\<close> with a
  status indicator and a credential check), the service module that talks to the remote
  API (\<open>services/openai\<close>), the transcript log of \<open>App.tsx\<close> and the particle
  visualizer (\<open>unnamed/part_000\<close>). Handlers are functions from the state of the page
  to its next state; what the browser, the clock and the remote API answer is an
  argument of the handler that asks.
\<close>

section \<open>JavaScript values\<close>

text \<open>
  A JavaScript string is a sequence of UTF-16 code units. String literals of the source
  are ASCII and are written \<open>js ''...''\<close>.
\<close>

type_synonym jsstring = "16 word list"

definition js :: "string \<Rightarrow> jsstring" where
  "js s = map (\<lambda>c. of_nat (of_char c)) s"

text \<open>
  \<open>String.prototype.trim\<close> strips the code points of \<open>WhiteSpace\<close> and \<open>LineTerminator\<close>
  (ECMA-262, 12.2 and 12.3) from both ends: TAB, LF, VT, FF, CR, SP, NBSP, the category Zs
  (U+1680, U+2000..U+200A, U+202F, U+205F, U+3000), LS, PS and the byte order mark.
  All of them lie in the basic plane, so each is one code unit.
\<close>

definition isWhiteSpace :: "16 word \<Rightarrow> bool" where
  "isWhiteSpace c \<longleftrightarrow>
     c = 0x09 \<or> c = 0x0A \<or> c = 0x0B \<or> c = 0x0C \<or> c = 0x0D \<or> c = 0x20 \<or> c = 0xA0 \<or>
     c = 0x1680 \<or> (0x2000 \<le> c \<and> c \<le> 0x200A) \<or> c = 0x2028 \<or> c = 0x2029 \<or>
     c = 0x202F \<or> c = 0x205F \<or> c = 0x3000 \<or> c = 0xFEFF"

definition trim :: "jsstring \<Rightarrow> jsstring" where
  "trim s = rev (dropWhile isWhiteSpace (rev (dropWhile isWhiteSpace s)))"

text \<open>\<open>s.includes(sub)\<close>: \<open>sub\<close> occurs in \<open>s\<close> as a contiguous run.\<close>

fun includes_js :: "jsstring \<Rightarrow> jsstring \<Rightarrow> bool" where
  "includes_js [] sub = (sub = [])"
| "includes_js (c # s) sub = (prefix sub (c # s) \<or> includes_js s sub)"

text \<open>
  The values a remote reply or a thrown exception may carry. \<open>JObject\<close> stands for any
  value that is neither \<open>undefined\<close>, \<open>null\<close> nor a string (it is truthy and its
  \<open>typeof\<close> is not \<open>'string'\<close>).
\<close>

datatype js_value = JUndefined | JNull | JString jsstring | JObject

datatype js_type = TUndefined | TObject | TString

fun typeof :: "js_value \<Rightarrow> js_type" where
  "typeof JUndefined = TUndefined"
| "typeof JNull = TObject"
| "typeof (JString s) = TString"
| "typeof JObject = TObject"

fun truthy :: "js_value \<Rightarrow> bool" where
  "truthy JUndefined = False"
| "truthy JNull = False"
| "truthy (JString s) = (s \<noteq> [])"
| "truthy JObject = True"

fun the_string :: "js_value \<Rightarrow> jsstring" where
  "the_string (JString s) = s"
| "the_string _ = []"

text \<open>
  A thrown value, as the \<open>catch\<close> blocks read it: \<open>err.name\<close> and \<open>err.message\<close>
  (which may be absent).
\<close>

datatype js_error = JsError (name: jsstring) (message: "jsstring option")

section \<open>Host objects\<close>

text \<open>
  The browser objects the recorder holds, reduced to the state its calls change:
  a track is live until \<open>track.stop()\<close>, an audio context runs until \<open>close()\<close>, and a
  media recorder is inactive until \<open>start\<close>, then recording or paused until \<open>stop\<close>.
  A recorder also carries its \<open>ondataavailable\<close> handler: the closure installed by
  \<open>startRecording\<close>, which has captured the \<open>language\<close> prop of the render it was
  created in.
\<close>

datatype readyState = Live | Ended

datatype MediaStream = MediaStream (getTracks: "readyState list")

datatype AudioContextState = Running | Closed

datatype RecordingState = Inactive | Recording | Paused

record MediaRecorder =
  state :: RecordingState
  timeslice :: "nat option"
  handler_language :: jsstring

datatype AnalyserNode = AnalyserNode (fftSize: nat)

type_synonym Blob = "8 word list"

datatype File = File "Blob list" jsstring jsstring

section \<open>The remote language API\<close>

datatype transcription_request =
  TranscriptionRequest File jsstring jsstring jsstring jsstring
  \<comment> \<open>file, model, language, response_format, prompt\<close>

datatype chat_message = ChatMessage (role: jsstring) (content: jsstring)

datatype chat_request =
  ChatRequest jsstring "chat_message list" "bool option"
  \<comment> \<open>model, messages, store (absent in the translation call)\<close>

datatype choice = Choice (message_content: "jsstring option")

datatype chat_completion = ChatCompletion (choices: "choice list")

text \<open>
  What the remote API answers while one chunk is processed: each call either rejects
  with an error (\<open>Inl\<close>) or resolves with a value.
\<close>

record remote =
  transcriptions_create :: "transcription_request \<Rightarrow> js_error + js_value"
  chat_completions_create :: "chat_request \<Rightarrow> js_error + chat_completion"

text \<open>The calls that leave the page, in the order they are made.\<close>

datatype host_call =
  GetUserMedia
| TranscriptionsCreate transcription_request
| ChatCompletionsCreate chat_request

section \<open>The state of the page\<close>

record TranscriptItem =
  id_item :: int
  original :: jsstring
  translation :: jsstring
  timestamp :: jsstring

text \<open>
  The state and refs of \<open>AudioRecorder\<close>, the state of \<open>App\<close> (which passes
  \<open>handleNewTranscript\<close>, \<open>setAnalyser\<close> and \<open>setIsRecording\<close> to the recorder as
  \<open>onNewTranscript\<close>, \<open>onAnalyserReady\<close> and \<open>onRecordingStateChange\<close>), the pending
  caption timeouts and the trace of outgoing calls. \<open>processingStatus\<close> and
  \<open>apiKeyMissing\<close> exist in the revision \<open>unnamed/part_001\<close> only.
\<close>

record world =
  isRecording :: bool
  isPaused :: bool
  error :: "jsstring option"
  processingStatus :: "jsstring option"
  apiKeyMissing :: bool
  mediaRecorderRef :: "MediaRecorder option"
  chunksRef :: "Blob list"
  streamRef :: "MediaStream option"
  audioContextRef :: "AudioContextState option"
  language :: jsstring
  transcripts :: "TranscriptItem list"
  analyser :: "AnalyserNode option"
  isRecording_App :: bool
  latestCaption :: jsstring
  timers :: "jsstring list"
  calls :: "host_call list"

definition initial :: world where
  "initial =
     \<lparr>isRecording = False, isPaused = False, error = None, processingStatus = None,
      apiKeyMissing = False, mediaRecorderRef = None, chunksRef = [], streamRef = None,
      audioContextRef = None, language = js ''ko'', transcripts = [], analyser = None,
      isRecording_App = False, latestCaption = [], timers = [], calls = []\<rparr>"

section \<open>App.tsx\<close>

text \<open>
  What the host clock answers during one call of \<open>handleNewTranscript\<close>:
  \<open>Date.now()\<close> (integer milliseconds) and \<open>new Date().toLocaleTimeString()\<close>.
\<close>

record clock =
  now :: int
  toLocaleTimeString :: jsstring

definition handleNewTranscript :: "clock \<Rightarrow> jsstring \<Rightarrow> jsstring \<Rightarrow> world \<Rightarrow> world" where
  "handleNewTranscript clk orig transl w =
     (let newItem = \<lparr>id_item = now clk, original = orig, translation = transl,
                     timestamp = toLocaleTimeString clk\<rparr>
      in w\<lparr>transcripts := transcripts w @ [newItem],
           latestCaption := transl,
           timers := timers w @ [transl]\<rparr>)"

text \<open>The callback of \<open>setTimeout(..., 6000)\<close> registered for \<open>transl\<close>.\<close>

definition captionTimeout :: "jsstring \<Rightarrow> world \<Rightarrow> world" where
  "captionTimeout transl w =
     w\<lparr>latestCaption := (if latestCaption w = transl then [] else latestCaption w)\<rparr>"

section \<open>services/openai\<close>

definition SYSTEM_PROMPT_CORRECTION :: jsstring where
  "SYSTEM_PROMPT_CORRECTION = js (
     [CHR 0x0A] @
     ''You are a helpful assistant for the company ZyntriQix. Your task is '' @ [CHR 0x0A] @
     ''to correct any spelling discrepancies in the transcribed text. Make '' @ [CHR 0x0A] @
     ''sure that the names of the following products are spelled correctly: '' @ [CHR 0x0A] @
     ''ZyntriQix, Digique Plus, CynapseFive, VortiQore V8, EchoNix Array, '' @ [CHR 0x0A] @
     ''OrbitalLink Seven, DigiFractal Matrix, PULSE, RAPT, B.R.I.C.K., '' @ [CHR 0x0A] @
     ''Q.U.A.R.T.Z., F.L.I.N.T. Only add necessary punctuation such as '' @ [CHR 0x0A] @
     ''periods, commas, and capitalization, and use only the context provided.'' @ [CHR 0x0A])"

text \<open>The argument objects of the three remote calls.\<close>

definition transcription_request :: "File \<Rightarrow> jsstring \<Rightarrow> transcription_request" where
  "transcription_request audioFile lang =
     TranscriptionRequest audioFile (js ''whisper-1'') lang (js ''text'')
       (js ''The following conversation is a lecture about the recent developments around OpenAI, GPT-4.5 and the future of AI.'')"

definition correction_request :: "jsstring \<Rightarrow> chat_request" where
  "correction_request transcript =
     ChatRequest (js ''gpt-4o-mini'')
       [ChatMessage (js ''system'') SYSTEM_PROMPT_CORRECTION,
        ChatMessage (js ''user'') transcript]
       (Some True)"

text \<open>\<open>targetLang\<close> is an optional parameter with the default \<open>"en"\<close>.\<close>

definition translation_request :: "jsstring \<Rightarrow> jsstring option \<Rightarrow> chat_request" where
  "translation_request text targetLang_arg =
     (let targetLang = (case targetLang_arg of None \<Rightarrow> js ''en'' | Some l \<Rightarrow> l);
          target = (if targetLang = js ''en'' then js ''English'' else targetLang)
      in ChatRequest (js ''gpt-4o-mini'')
           [ChatMessage (js ''system'')
              (js ''You are a professional translator. Translate the user input into '' @ target @
               js ''. If it is already '' @ target @ js '', just refine it slightly.''),
            ChatMessage (js ''user'') text]
           None)"

text \<open>
  \<open>transcribeAudio\<close> logs and rethrows: its result is the reply itself. Each service
  function returns its result and the world with the call added to the trace.
\<close>

definition transcribeAudio ::
    "remote \<Rightarrow> File \<Rightarrow> jsstring \<Rightarrow> world \<Rightarrow> (js_error + js_value) \<times> world" where
  "transcribeAudio api audioFile lang w =
     (let request = transcription_request audioFile lang
      in (transcriptions_create api request,
          w\<lparr>calls := calls w @ [TranscriptionsCreate request]\<rparr>))"

text \<open>
  \<open>completion.choices[0].message.content || fallback\<close>: an empty \<open>choices\<close> makes the
  property access throw, inside the \<open>try\<close>; a \<open>null\<close> or empty content is falsy.
\<close>

definition correctTranscript :: "remote \<Rightarrow> jsstring \<Rightarrow> world \<Rightarrow> jsstring \<times> world" where
  "correctTranscript api transcript w =
     (let request = correction_request transcript;
          w' = w\<lparr>calls := calls w @ [ChatCompletionsCreate request]\<rparr>
      in case chat_completions_create api request of
           Inl err \<Rightarrow> (transcript, w')
         | Inr completion \<Rightarrow>
             (case choices completion of
                [] \<Rightarrow> (transcript, w')
              | c # _ \<Rightarrow>
                  (case message_content c of
                     None \<Rightarrow> (transcript, w')
                   | Some s \<Rightarrow> (if s \<noteq> [] then s else transcript, w'))))"

definition translateText ::
    "remote \<Rightarrow> jsstring \<Rightarrow> jsstring option \<Rightarrow> world \<Rightarrow> jsstring \<times> world" where
  "translateText api text targetLang_arg w =
     (let request = translation_request text targetLang_arg;
          w' = w\<lparr>calls := calls w @ [ChatCompletionsCreate request]\<rparr>
      in case chat_completions_create api request of
           Inl err \<Rightarrow> ([], w')
         | Inr completion \<Rightarrow>
             (case choices completion of
                [] \<Rightarrow> ([], w')
              | c # _ \<Rightarrow>
                  (case message_content c of
                     None \<Rightarrow> ([], w')
                   | Some s \<Rightarrow> (if s \<noteq> [] then s else [], w'))))"

text \<open>
  The texts the last two stages hand on. The trace is only written, never read, so the
  world the functions run in does not matter.
\<close>

definition corrected_text :: "remote \<Rightarrow> jsstring \<Rightarrow> jsstring" where
  "corrected_text api transcript = fst (correctTranscript api transcript initial)"

definition translated_text :: "remote \<Rightarrow> jsstring \<Rightarrow> jsstring option \<Rightarrow> jsstring" where
  "translated_text api text targetLang_arg = fst (translateText api text targetLang_arg initial)"

section \<open>components/AudioRecorder.tsx\<close>

definition CHUNK_INTERVAL :: nat where
  "CHUNK_INTERVAL = 10000"

definition dismissError :: "world \<Rightarrow> world" where
  "dismissError w = w\<lparr>error := None\<rparr>"

subsection \<open>startRecording\<close>

text \<open>
  What the browser answers during one call of \<open>startRecording\<close>: \<open>getUserMedia\<close>
  rejects with an error or resolves with a stream, and each later step of the \<open>try\<close>
  block may throw: the \<open>AudioContext\<close> constructor, the construction of the analyser
  graph (\<open>createAnalyser\<close>, \<open>createMediaStreamSource\<close>, \<open>connect\<close>), the
  \<open>MediaRecorder\<close> constructor and \<open>mediaRecorder.start\<close>.
\<close>

datatype start_step = NewAudioContext | ConnectAnalyser | NewMediaRecorder | RecorderStart

record start_host =
  getUserMedia :: "js_error + MediaStream"
  throws :: "start_step \<Rightarrow> js_error option"

text \<open>
  The \<open>try\<close> block, the same in both revisions: the error that left it, if any, and
  the world at that moment.
\<close>

definition try_startRecording :: "start_host \<Rightarrow> world \<Rightarrow> js_error option \<times> world" where
  "try_startRecording host w0 =
     (let w1 = w0\<lparr>calls := calls w0 @ [GetUserMedia]\<rparr> in
      case getUserMedia host of
        Inl err \<Rightarrow> (Some err, w1)
      | Inr stream \<Rightarrow>
          (let w2 = w1\<lparr>streamRef := Some stream\<rparr> in
           case throws host NewAudioContext of
             Some err \<Rightarrow> (Some err, w2)
           | None \<Rightarrow>
               (let w3 = w2\<lparr>audioContextRef := Some Running\<rparr> in
                case throws host ConnectAnalyser of
                  Some err \<Rightarrow> (Some err, w3)
                | None \<Rightarrow>
                    (let w4 = w3\<lparr>analyser := Some (AnalyserNode 256)\<rparr> in
                     case throws host NewMediaRecorder of
                       Some err \<Rightarrow> (Some err, w4)
                     | None \<Rightarrow>
                         (let mediaRecorder = \<lparr>state = Inactive, timeslice = None,
                                                 handler_language = language w4\<rparr>;
                              w5 = w4\<lparr>mediaRecorderRef := Some mediaRecorder, chunksRef := []\<rparr> in
                          case throws host RecorderStart of
                            Some err \<Rightarrow> (Some err, w5)
                          | None \<Rightarrow>
                              (None,
                               w5\<lparr>mediaRecorderRef :=
                                    Some (mediaRecorder\<lparr>state := Recording,
                                                         timeslice := Some CHUNK_INTERVAL\<rparr>),
                                  isRecording := True,
                                  isRecording_App := True,
                                  isPaused := False\<rparr>))))))"

text \<open>The \<open>catch\<close> block's choice of message.\<close>

definition errorMessage :: "js_error \<Rightarrow> jsstring" where
  "errorMessage err =
     (if name err = js ''NotFoundError'' \<or>
         (case message err of None \<Rightarrow> False | Some m \<Rightarrow> includes_js m (js ''not found''))
      then js ''No microphone detected. Please connect a microphone and try again.''
      else if name err = js ''NotAllowedError'' \<or> name err = js ''PermissionDeniedError''
      then js ''Microphone access denied. Please allow microphone access in your browser settings.''
      else if name err = js ''NotReadableError''
      then js ''Microphone is in use by another application.''
      else (case message err of
              None \<Rightarrow> js ''Unable to access microphone.''
            | Some m \<Rightarrow> if m \<noteq> [] then js ''Microphone error: '' @ m
                        else js ''Unable to access microphone.''))"

text \<open>\<open>startRecording\<close> of \<open>src/components/AudioRecorder.tsx\<close>.\<close>

definition startRecording :: "start_host \<Rightarrow> world \<Rightarrow> world" where
  "startRecording host w =
     (case try_startRecording host (w\<lparr>error := None\<rparr>) of
        (None, w') \<Rightarrow> w'
      | (Some err, w') \<Rightarrow> w'\<lparr>error := Some (errorMessage err)\<rparr>)"

text \<open>
  \<open>unnamed/part_001\<close>: the effect run once at mount, given what \<open>isApiKeyConfigured()\<close>
  returns (the function is imported from the service module; its body is not part of
  the sources), and \<open>startRecording\<close> with its early return.
\<close>

definition mount_001 :: "bool \<Rightarrow> world \<Rightarrow> world" where
  "mount_001 isApiKeyConfigured w =
     (if \<not> isApiKeyConfigured then w\<lparr>apiKeyMissing := True\<rparr> else w)"

definition startRecording_001 :: "start_host \<Rightarrow> world \<Rightarrow> world" where
  "startRecording_001 host w =
     (if apiKeyMissing w
      then w\<lparr>error := Some (js ''OpenAI API key is not configured. Transcription will not work.'')\<rparr>
      else (case try_startRecording host (w\<lparr>error := None\<rparr>) of
              (None, w') \<Rightarrow> w'
            | (Some err, w') \<Rightarrow> w'\<lparr>error := Some (errorMessage err)\<rparr>))"

text \<open>
  What the component renders of the two notices: the error toast (\<open>error &&\<close>) and the
  credential warning of \<open>unnamed/part_001\<close> (\<open>apiKeyMissing && !error &&\<close>).
\<close>

definition errorToast :: "world \<Rightarrow> jsstring option" where
  "errorToast w = (case error w of None \<Rightarrow> None | Some e \<Rightarrow> if e \<noteq> [] then Some e else None)"

definition apiKeyWarning_001 :: "world \<Rightarrow> bool" where
  "apiKeyWarning_001 w \<longleftrightarrow> apiKeyMissing w \<and> errorToast w = None"

subsection \<open>processChunk\<close>

text \<open>
  One run of the chunk pipeline, from the call to its last state update, given the
  replies of the remote API and of the clock. The runs of different chunks may
  interleave at each \<open>await\<close>; a run reads no state and writes the shared log only
  through the updater \<open>prev => [...prev, newItem]\<close>, so it is modelled as one step.
\<close>

definition speech_file :: "Blob \<Rightarrow> File" where
  "speech_file chunk = File [chunk] (js ''speech.webm'') (js ''audio/webm'')"

definition processChunk :: "remote \<Rightarrow> clock \<Rightarrow> jsstring \<Rightarrow> Blob \<Rightarrow> world \<Rightarrow> world" where
  "processChunk api clk lang chunk w =
     (let file = speech_file chunk in
      case transcribeAudio api file lang w of
        (Inl err, w1) \<Rightarrow> w1
      | (Inr transcript, w1) \<Rightarrow>
          if \<not> truthy transcript \<or> typeof transcript \<noteq> TString \<or>
             length (trim (the_string transcript)) = 0
          then w1
          else
            (let (corrected, w2) = correctTranscript api (the_string transcript) w1;
                 (transl, w3) = translateText api corrected None w2
             in handleNewTranscript clk corrected transl w3))"

text \<open>The test of the \<open>catch\<close> block of \<open>unnamed/part_001\<close>.\<close>

definition api_error :: "js_error \<Rightarrow> bool" where
  "api_error err =
     (case message err of
        None \<Rightarrow> False
      | Some m \<Rightarrow> includes_js m (js ''API'') \<or> includes_js m (js ''401'') \<or>
                  includes_js m (js ''403''))"

definition processChunk_001 :: "remote \<Rightarrow> clock \<Rightarrow> jsstring \<Rightarrow> Blob \<Rightarrow> world \<Rightarrow> world" where
  "processChunk_001 api clk lang chunk w =
     (let file = speech_file chunk;
          w0 = w\<lparr>processingStatus := Some (js ''Transcribing...'')\<rparr> in
      case transcribeAudio api file lang w0 of
        (Inl err, w1) \<Rightarrow>
          (let w2 = w1\<lparr>processingStatus := None\<rparr> in
           if api_error err
           then w2\<lparr>error := Some (js ''OpenAI API error. Please check your API key configuration.'')\<rparr>
           else w2)
      | (Inr transcript, w1) \<Rightarrow>
          if \<not> truthy transcript \<or> typeof transcript \<noteq> TString \<or>
             length (trim (the_string transcript)) = 0
          then w1\<lparr>processingStatus := None\<rparr>
          else
            (let w2 = w1\<lparr>processingStatus := Some (js ''Correcting...'')\<rparr>;
                 (corrected, w3) = correctTranscript api (the_string transcript) w2;
                 w4 = w3\<lparr>processingStatus := Some (js ''Translating...'')\<rparr>;
                 (transl, w5) = translateText api corrected None w4;
                 w6 = w5\<lparr>processingStatus := None\<rparr>
             in handleNewTranscript clk corrected transl w6))"

text \<open>
  The \<open>ondataavailable\<close> handler installed by \<open>startRecording\<close>; it exists once a
  recorder has been constructed.
\<close>

definition ondataavailable :: "remote \<Rightarrow> clock \<Rightarrow> Blob \<Rightarrow> world \<Rightarrow> world" where
  "ondataavailable api clk data w =
     (case mediaRecorderRef w of
        None \<Rightarrow> w
      | Some r \<Rightarrow>
          if length data > 0
          then processChunk api clk (handler_language r) data (w\<lparr>chunksRef := chunksRef w @ [data]\<rparr>)
          else w)"

definition ondataavailable_001 :: "remote \<Rightarrow> clock \<Rightarrow> Blob \<Rightarrow> world \<Rightarrow> world" where
  "ondataavailable_001 api clk data w =
     (case mediaRecorderRef w of
        None \<Rightarrow> w
      | Some r \<Rightarrow>
          if length data > 0
          then processChunk_001 api clk (handler_language r) data (w\<lparr>chunksRef := chunksRef w @ [data]\<rparr>)
          else w)"

subsection \<open>stopRecording and togglePause\<close>

definition stopRecording :: "world \<Rightarrow> world" where
  "stopRecording w =
     (case mediaRecorderRef w of
        None \<Rightarrow> w
      | Some r \<Rightarrow>
          if isRecording w
          then w\<lparr>mediaRecorderRef := Some (r\<lparr>state := Inactive\<rparr>),
                 streamRef := (case streamRef w of
                                 None \<Rightarrow> None
                               | Some s \<Rightarrow> Some (MediaStream (map (\<lambda>track. Ended) (getTracks s)))),
                 audioContextRef := (case audioContextRef w of
                                       None \<Rightarrow> None
                                     | Some c \<Rightarrow> Some Closed),
                 analyser := None,
                 isRecording := False,
                 isRecording_App := False,
                 isPaused := False\<rparr>
          else w)"

text \<open>
  \<open>pause()\<close> and \<open>resume()\<close> throw \<open>InvalidStateError\<close> on an inactive recorder: the
  handler is left before \<open>setIsPaused\<close> and nothing has changed.
\<close>

definition togglePause :: "world \<Rightarrow> world" where
  "togglePause w =
     (case mediaRecorderRef w of
        None \<Rightarrow> w
      | Some r \<Rightarrow>
          if state r = Inactive then w
          else if isPaused w
          then w\<lparr>mediaRecorderRef := Some (r\<lparr>state := Recording\<rparr>), isPaused := False\<rparr>
          else w\<lparr>mediaRecorderRef := Some (r\<lparr>state := Paused\<rparr>), isPaused := True\<rparr>)"

section \<open>The page as a whole\<close>

text \<open>
  \<open>LanguageSelector\<close> calls \<open>setLanguage(lang.code)\<close>, the setter of \<open>App\<close>.
\<close>

definition setLanguage :: "jsstring \<Rightarrow> world \<Rightarrow> world" where
  "setLanguage code w = w\<lparr>language := code\<rparr>"

text \<open>
  Everything that can happen to the page, for either revision of the recorder: the
  mount effect, the three buttons, the dismissal of the toast, a \<open>dataavailable\<close> event,
  a caption timeout and a change of language. \<open>run\<close> applies a sequence of events; it
  allows every handler at every moment, which is more than the rendered buttons allow.
\<close>

datatype revision = AudioRecorder_tsx | Part_001

datatype event =
  Mount bool
| StartRecording start_host
| StopRecording
| TogglePause
| DismissError
| DataAvailable remote clock Blob
| CaptionTimeout jsstring
| SetLanguage jsstring

fun fire :: "revision \<Rightarrow> event \<Rightarrow> world \<Rightarrow> world" where
  "fire AudioRecorder_tsx (Mount c) w = w"
| "fire Part_001 (Mount c) w = mount_001 c w"
| "fire AudioRecorder_tsx (StartRecording host) w = startRecording host w"
| "fire Part_001 (StartRecording host) w = startRecording_001 host w"
| "fire rv StopRecording w = stopRecording w"
| "fire rv TogglePause w = togglePause w"
| "fire rv DismissError w = dismissError w"
| "fire AudioRecorder_tsx (DataAvailable api clk data) w = ondataavailable api clk data w"
| "fire Part_001 (DataAvailable api clk data) w = ondataavailable_001 api clk data w"
| "fire rv (CaptionTimeout transl) w = captionTimeout transl w"
| "fire rv (SetLanguage code) w = setLanguage code w"

fun run :: "revision \<Rightarrow> event list \<Rightarrow> world \<Rightarrow> world" where
  "run rv [] w = w"
| "run rv (e # es) w = run rv es (fire rv e w)"

text \<open>
  The capture session as the handlers see it: the recording flag, the recorder, the
  stream, the audio context, the published analyser and the credential flag. While
  \<open>isRecording\<close> holds the session is held when all four objects are set.
\<close>

definition session_fields ::
    "world \<Rightarrow> bool \<times> MediaRecorder option \<times> MediaStream option \<times> AudioContextState option \<times>
       AnalyserNode option \<times> bool" where
  "session_fields w =
     (isRecording w, mediaRecorderRef w, streamRef w, audioContextRef w, analyser w, apiKeyMissing w)"

definition session_held :: "world \<Rightarrow> bool" where
  "session_held w \<longleftrightarrow>
     (isRecording w \<longrightarrow>
        mediaRecorderRef w \<noteq> None \<and> streamRef w \<noteq> None \<and> audioContextRef w \<noteq> None \<and>
        analyser w \<noteq> None)"

section \<open>components/AudioVisualizer.tsx (unnamed/part_000)\<close>

text \<open>
  The numbers of the visualizer are IEEE doubles; they are modelled as reals, so the
  rounding of each operation is left out. \<open>dataArray\<close> is a \<open>Uint8Array\<close> of
  \<open>bufferLength = analyser.frequencyBinCount\<close> bytes (128 for the analyser that
  \<open>startRecording\<close> builds, never 0).
\<close>

record dot =
  dot_x :: real
  dot_y :: real
  baseR :: real
  angle :: real
  speed :: real

text \<open>One dot of the initial loop, from its three \<open>Math.random()\<close> values.\<close>

definition new_dot :: "real \<Rightarrow> real \<Rightarrow> real \<Rightarrow> dot" where
  "new_dot r1 r2 r3 =
     (let a = r1 * pi * 2;
          radius = r2 * 50 + 50
      in \<lparr>dot_x = cos a * radius, dot_y = sin a * radius, baseR = radius, angle = a,
          speed = (r3 - 0.5) * 0.02\<rparr>)"

definition average :: "8 word list \<Rightarrow> real" where
  "average dataArray =
     foldl (\<lambda>sum b. sum + real (unat b)) 0 dataArray / real (length dataArray)"

definition scale :: "8 word list \<Rightarrow> real" where
  "scale dataArray = 1 + (average dataArray / 128) * 1.5"

text \<open>The remainder operator \<open>%\<close> on integers: the result has the sign of the dividend.\<close>

definition js_rem :: "int \<Rightarrow> int \<Rightarrow> int" where
  "js_rem a n = sgn a * (\<bar>a\<bar> mod \<bar>n\<bar>)"

definition binIndex :: "nat \<Rightarrow> real \<Rightarrow> int" where
  "binIndex bufferLength a =
     js_rem \<lfloor>((a + pi) / (2 * pi)) * real bufferLength\<rfloor> (int bufferLength)"

text \<open>\<open>dataArray[binIndex] || 0\<close>: an index outside the array reads \<open>undefined\<close>.\<close>

definition freqValue :: "8 word list \<Rightarrow> int \<Rightarrow> nat" where
  "freqValue dataArray i =
     (if 0 \<le> i \<and> i < int (length dataArray) then unat (dataArray ! nat i) else 0)"

definition currentRadius :: "8 word list \<Rightarrow> dot \<Rightarrow> real" where
  "currentRadius dataArray d =
     baseR d * scale dataArray +
     (real (freqValue dataArray (binIndex (length dataArray) (angle d))) / 255) * 40"

text \<open>
  The body of \<open>dots.forEach\<close>: the dot with its angle advanced, and the arc drawn
  (centre and radius).
\<close>

definition draw_dot :: "8 word list \<Rightarrow> dot \<Rightarrow> dot \<times> (real \<times> real \<times> real)" where
  "draw_dot dataArray d =
     (let f = freqValue dataArray (binIndex (length dataArray) (angle d));
          r = currentRadius dataArray d;
          d' = d\<lparr>angle := angle d + speed d\<rparr>
      in (d', (cos (angle d') * r, sin (angle d') * r, 2 + (real f / 255) * 3)))"

text \<open>The dots after the frames whose frequency data are given, oldest first.\<close>

fun frames :: "8 word list list \<Rightarrow> dot \<Rightarrow> dot" where
  "frames [] d = d"
| "frames (dataArray # rest) d = frames rest (fst (draw_dot dataArray d))"

section \<open>Example inputs\<close>

text \<open>
  A browser that grants the microphone (one live track) and throws nowhere; a remote
  API that answers the three stages with fixed replies (the correction call is the one
  that sets \<open>store\<close>); an error, a completion with one choice, and a clock reading.
\<close>

definition example_host :: start_host where
  "example_host = \<lparr>getUserMedia = Inr (MediaStream [Live]), throws = (\<lambda>step. None)\<rparr>"

definition scripted_api ::
    "js_error + js_value \<Rightarrow> js_error + chat_completion \<Rightarrow> js_error + chat_completion \<Rightarrow> remote" where
  "scripted_api stt correction transl =
     \<lparr>transcriptions_create = (\<lambda>request. stt),
      chat_completions_create = (\<lambda>request.
        case request of
          ChatRequest m messages None \<Rightarrow> transl
        | ChatRequest m messages (Some store) \<Rightarrow> correction)\<rparr>"

definition connection_error :: js_error where
  "connection_error = JsError (js ''Error'') (Some (js ''Connection error.''))"

definition completion_of :: "jsstring \<Rightarrow> js_error + chat_completion" where
  "completion_of s = Inr (ChatCompletion [Choice (Some s)])"

definition example_clock :: clock where
  "example_clock = \<lparr>now = 1700000000000, toLocaleTimeString = js ''10:00:00 AM''\<rparr>"

section \<open>Strings\<close>

lemma of_char_less_65536: "(of_char c :: nat) < 65536"
proof -
  have "(of_char c :: nat) = of_char c mod 256" by (simp add: of_char_mod_256)
  also have "\<dots> < 256" by simp
  finally show ?thesis by linarith
qed

lemma inj_code_unit: "inj (\<lambda>c. (of_nat (of_char c) :: 16 word))"
proof (rule injI)
  fix c d :: char
  assume "(of_nat (of_char c) :: 16 word) = of_nat (of_char d)"
  then have "unat (of_nat (of_char c) :: 16 word) = unat (of_nat (of_char d) :: 16 word)" by simp
  then have "(of_char c :: nat) = of_char d"
    using of_char_less_65536 [of c] of_char_less_65536 [of d] by (simp add: unat_of_nat)
  then show "c = d" by simp
qed

lemma js_eq_iff [simp]: "js a = js b \<longleftrightarrow> a = b"
  unfolding js_def using inj_code_unit by (simp add: inj_map_eq_map)

lemma js_append: "js (a @ b) = js a @ js b"
  by (simp add: js_def)

lemma js_Nil [simp]: "js [] = []"
  by (simp add: js_def)

lemma js_eq_Nil [simp]: "js s = [] \<longleftrightarrow> s = []"
  by (simp add: js_def)

lemma all_dropWhile_iff: "(\<forall>x\<in>set (dropWhile P s). P x) \<longleftrightarrow> (\<forall>x\<in>set s. P x)"
  by (induction s) auto

text \<open>\<open>s.trim().length === 0\<close> says that \<open>s\<close> consists of white space only.\<close>

lemma trim_empty_iff: "trim s = [] \<longleftrightarrow> (\<forall>c\<in>set s. isWhiteSpace c)"
  by (simp add: trim_def dropWhile_eq_Nil_conv all_dropWhile_iff)

lemma nonblank_trim: "\<not> (\<forall>c\<in>set t. isWhiteSpace c) \<Longrightarrow> trim t \<noteq> []"
  by (simp add: trim_empty_iff)

lemma trim_nonempty: "trim t \<noteq> [] \<Longrightarrow> t \<noteq> []"
  by (auto simp: trim_def)

lemma includes_js_iff: "includes_js s sub \<longleftrightarrow> sublist sub s"
  by (induction s) (auto simp: sublist_Cons_right)

lemma hello_world_nonblank: "\<not> (\<forall>c\<in>set (js ''hello world''). isWhiteSpace c)"
  by (simp add: js_def isWhiteSpace_def)

section \<open>The chunk pipeline\<close>

lemma correctTranscript_eq:
  "correctTranscript api t w =
     (corrected_text api t, w\<lparr>calls := calls w @ [ChatCompletionsCreate (correction_request t)]\<rparr>)"
  by (simp add: correctTranscript_def corrected_text_def Let_def
           split: sum.splits list.splits option.splits)

lemma translateText_eq:
  "translateText api t a w =
     (translated_text api t a, w\<lparr>calls := calls w @ [ChatCompletionsCreate (translation_request t a)]\<rparr>)"
  by (simp add: translateText_def translated_text_def Let_def
           split: sum.splits list.splits option.splits)

lemma corrected_text_nonempty: "t \<noteq> [] \<Longrightarrow> corrected_text api t \<noteq> []"
  by (simp add: correctTranscript_def corrected_text_def Let_def
           split: sum.splits list.splits option.splits)

lemma handleNewTranscript_transcripts:
  "transcripts (handleNewTranscript clk a b w) =
     transcripts w @ [\<lparr>id_item = now clk, original = a, translation = b,
                        timestamp = toLocaleTimeString clk\<rparr>]"
  by (simp add: handleNewTranscript_def Let_def)

lemma handleNewTranscript_calls: "calls (handleNewTranscript clk a b w) = calls w"
  by (simp add: handleNewTranscript_def Let_def)

text \<open>The three ways through \<open>processChunk\<close>: stage 1 raises, is skipped, or passes.\<close>

lemma processChunk_raise:
  assumes "transcriptions_create api (transcription_request (speech_file chunk) lang) = Inl err"
  shows "processChunk api clk lang chunk w =
           w\<lparr>calls := calls w @ [TranscriptionsCreate (transcription_request (speech_file chunk) lang)]\<rparr>"
  using assms by (simp add: processChunk_def transcribeAudio_def Let_def)

lemma processChunk_skip:
  assumes "transcriptions_create api (transcription_request (speech_file chunk) lang) = Inr v"
    and "\<not> truthy v \<or> typeof v \<noteq> TString \<or> trim (the_string v) = []"
  shows "processChunk api clk lang chunk w =
           w\<lparr>calls := calls w @ [TranscriptionsCreate (transcription_request (speech_file chunk) lang)]\<rparr>"
  using assms by (auto simp add: processChunk_def transcribeAudio_def Let_def)

lemma processChunk_run:
  assumes "transcriptions_create api (transcription_request (speech_file chunk) lang) = Inr (JString t)"
    and "trim t \<noteq> []"
  shows "processChunk api clk lang chunk w =
           handleNewTranscript clk (corrected_text api t)
             (translated_text api (corrected_text api t) None)
             (w\<lparr>calls := calls w @
                 [TranscriptionsCreate (transcription_request (speech_file chunk) lang),
                  ChatCompletionsCreate (correction_request t),
                  ChatCompletionsCreate (translation_request (corrected_text api t) None)]\<rparr>)"
  using assms trim_nonempty [OF assms(2)]
  by (simp add: processChunk_def transcribeAudio_def Let_def correctTranscript_eq translateText_eq)

text \<open>
  The pipeline of \<open>unnamed/part_001\<close> is the one of \<open>AudioRecorder.tsx\<close> with the
  status indicator cleared at the end and, when stage 1 raises an API error, the toast.
\<close>

lemma processChunk_001_raise:
  assumes "transcriptions_create api (transcription_request (speech_file chunk) lang) = Inl err"
  shows "processChunk_001 api clk lang chunk w =
           (processChunk api clk lang chunk w)
             \<lparr>processingStatus := None,
              error := (if api_error err
                        then Some (js ''OpenAI API error. Please check your API key configuration.'')
                        else error w)\<rparr>"
  using assms by (simp add: processChunk_001_def processChunk_def transcribeAudio_def Let_def)

lemma processChunk_001_return:
  assumes "transcriptions_create api (transcription_request (speech_file chunk) lang) = Inr v"
  shows "processChunk_001 api clk lang chunk w =
           (processChunk api clk lang chunk w)\<lparr>processingStatus := None\<rparr>"
  using assms
  by (simp add: processChunk_001_def processChunk_def transcribeAudio_def Let_def
        correctTranscript_eq translateText_eq handleNewTranscript_def)

lemma translation_request_default:
  "translation_request text None =
     ChatRequest (js ''gpt-4o-mini'')
       [ChatMessage (js ''system'')
          (js ''You are a professional translator. Translate the user input into English. If it is already English, just refine it slightly.''),
        ChatMessage (js ''user'') text]
       None"
  by (simp add: translation_request_def js_append [symmetric])

lemma startRecording_001_example:
  "startRecording_001 example_host initial =
     initial\<lparr>calls := [GetUserMedia],
             streamRef := Some (MediaStream [Live]),
             audioContextRef := Some Running,
             analyser := Some (AnalyserNode 256),
             mediaRecorderRef := Some \<lparr>state = Recording, timeslice = Some CHUNK_INTERVAL,
                                       handler_language = js ''ko''\<rparr>,
             chunksRef := [],
             isRecording := True,
             isRecording_App := True,
             isPaused := False\<rparr>"
  by (simp add: startRecording_001_def try_startRecording_def example_host_def initial_def Let_def)

section \<open>Claims about the chunk pipeline\<close>

text \<open>
  C1. For every chunk, in both revisions of the recorder: the transcript log changes
  only if stage 1 resolved with a string that is not empty and not all white space;
  and if the stage-1 call raises, the log is unchanged and the session goes on: the
  recording flags, the recorder, the stream, the audio context and the published
  analyser are what they were.
\<close>

theorem processChunk_stage1_gate:
  assumes "w' = processChunk api clk lang chunk w \<or> w' = processChunk_001 api clk lang chunk w"
  shows "(transcripts w' \<noteq> transcripts w \<longrightarrow>
            (\<exists>t. transcriptions_create api (transcription_request (speech_file chunk) lang) = Inr (JString t)
                 \<and> t \<noteq> [] \<and> \<not> (\<forall>c\<in>set t. isWhiteSpace c)))
       \<and> (\<forall>err. transcriptions_create api (transcription_request (speech_file chunk) lang) = Inl err \<longrightarrow>
            transcripts w' = transcripts w \<and>
            isRecording w' = isRecording w \<and> isPaused w' = isPaused w \<and>
            isRecording_App w' = isRecording_App w \<and>
            mediaRecorderRef w' = mediaRecorderRef w \<and> streamRef w' = streamRef w \<and>
            audioContextRef w' = audioContextRef w \<and> analyser w' = analyser w)"
proof (cases "transcriptions_create api (transcription_request (speech_file chunk) lang)")
  case (Inl err)
  then show ?thesis
    using assms by (auto simp: processChunk_001_raise processChunk_raise)
next
  case (Inr v)
  show ?thesis
  proof (cases "\<not> truthy v \<or> typeof v \<noteq> TString \<or> trim (the_string v) = []")
    case True
    then show ?thesis
      using assms Inr by (auto simp: processChunk_001_return processChunk_skip)
  next
    case False
    then obtain t where t: "v = JString t" by (cases v) auto
    with False have "t \<noteq> []" "\<not> (\<forall>c\<in>set t. isWhiteSpace c)"
      by (auto simp: trim_empty_iff)
    then show ?thesis using Inr t by simp
  qed
qed

theorem processChunk_stage1_gate_witness:
  "transcripts (processChunk
      (scripted_api (Inr (JString (js ''hello world''))) (completion_of (js ''Hello world.''))
         (completion_of (js ''Bonjour le monde.'')))
      example_clock (js ''ko'') [0x52] initial) \<noteq> transcripts initial \<and>
   transcriptions_create
      (scripted_api (Inr (JString (js ''hello world''))) (completion_of (js ''Hello world.''))
         (completion_of (js ''Bonjour le monde.'')))
      (transcription_request (speech_file [0x52]) (js ''ko'')) = Inr (JString (js ''hello world'')) \<and>
   transcripts (processChunk_001
      (scripted_api (Inl connection_error) (Inl connection_error) (Inl connection_error))
      example_clock (js ''ko'') [0x52] (startRecording_001 example_host initial)) = [] \<and>
   isRecording (processChunk_001
      (scripted_api (Inl connection_error) (Inl connection_error) (Inl connection_error))
      example_clock (js ''ko'') [0x52] (startRecording_001 example_host initial))"
proof -
  let ?ok = "scripted_api (Inr (JString (js ''hello world''))) (completion_of (js ''Hello world.''))
               (completion_of (js ''Bonjour le monde.''))"
  let ?down = "scripted_api (Inl connection_error) (Inl connection_error) (Inl connection_error)"
  let ?rec = "startRecording_001 example_host initial"
  have a: "transcripts (processChunk ?ok example_clock (js ''ko'') [0x52] initial) \<noteq> transcripts initial"
    by (simp add: processChunk_run [where t = "js ''hello world''"] scripted_api_def
          nonblank_trim [OF hello_world_nonblank] handleNewTranscript_transcripts)
  have b: "transcriptions_create ?down (transcription_request (speech_file [0x52]) (js ''ko'')) =
             Inl connection_error"
    by (simp add: scripted_api_def)
  have c: "isRecording ?rec" "transcripts ?rec = []"
    unfolding startRecording_001_example by (simp_all add: initial_def)
  have d: "transcriptions_create ?ok (transcription_request (speech_file [0x52]) (js ''ko'')) =
             Inr (JString (js ''hello world''))"
    by (simp add: scripted_api_def)
  show ?thesis
    using a b c d
      processChunk_stage1_gate [of "processChunk ?ok example_clock (js ''ko'') [0x52] initial"
        ?ok example_clock "js ''ko''" "[0x52]" initial]
      processChunk_stage1_gate [of "processChunk_001 ?down example_clock (js ''ko'') [0x52] ?rec"
        ?down example_clock "js ''ko''" "[0x52]" ?rec]
    by simp
qed

text \<open>
  C3. For every chunk whose stage-1 output is a string of white space only (the empty
  string included), in both revisions: the transcript log is unchanged and the only
  remote call made for the chunk is the transcription, so neither the correction nor
  the translation is invoked.
\<close>

theorem processChunk_blank_transcript:
  assumes "transcriptions_create api (transcription_request (speech_file chunk) lang) = Inr (JString t)"
    and "\<forall>c\<in>set t. isWhiteSpace c"
    and "w' = processChunk api clk lang chunk w \<or> w' = processChunk_001 api clk lang chunk w"
  shows "transcripts w' = transcripts w \<and>
         calls w' = calls w @ [TranscriptionsCreate (transcription_request (speech_file chunk) lang)]"
proof -
  have "trim t = []" using assms(2) by (simp add: trim_empty_iff)
  then have "processChunk api clk lang chunk w =
        w\<lparr>calls := calls w @ [TranscriptionsCreate (transcription_request (speech_file chunk) lang)]\<rparr>"
    using processChunk_skip [OF assms(1)] by simp
  then show ?thesis
    using assms(3) processChunk_001_return [OF assms(1)] by auto
qed

theorem processChunk_blank_transcript_witness:
  "list_all isWhiteSpace [0x20, 0x0A, 0x3000] \<and>
   transcripts (processChunk_001
      (scripted_api (Inr (JString [0x20, 0x0A, 0x3000])) (completion_of (js ''Hello world.''))
         (completion_of (js ''Bonjour le monde.'')))
      example_clock (js ''zh'') [0x52] initial) = [] \<and>
   calls (processChunk_001
      (scripted_api (Inr (JString [0x20, 0x0A, 0x3000])) (completion_of (js ''Hello world.''))
         (completion_of (js ''Bonjour le monde.'')))
      example_clock (js ''zh'') [0x52] initial) =
     [TranscriptionsCreate (transcription_request (speech_file [0x52]) (js ''zh''))]"
proof -
  let ?api = "scripted_api (Inr (JString [0x20, 0x0A, 0x3000])) (completion_of (js ''Hello world.''))
         (completion_of (js ''Bonjour le monde.''))"
  have a: "transcriptions_create ?api (transcription_request (speech_file [0x52]) (js ''zh'')) =
             Inr (JString [0x20, 0x0A, 0x3000])"
    by (simp add: scripted_api_def)
  have b: "\<forall>c\<in>set [0x20, 0x0A, 0x3000]. isWhiteSpace c"
    by (simp add: isWhiteSpace_def)
  show ?thesis
    using processChunk_blank_transcript [OF a b, of "processChunk_001 ?api example_clock (js ''zh'') [0x52] initial"
        example_clock initial] b
    by (simp add: initial_def list_all_iff)
qed

text \<open>
  C4. For every chunk that passed stage 1 and whose correction call raises, returns no
  choice, or returns a \<open>null\<close> or empty content, in both revisions: the correction
  output is the stage-1 transcript itself, the translation is called on it, and one
  transcript item is appended whose original text is that transcript.
\<close>

theorem processChunk_correction_fallback:
  assumes "transcriptions_create api (transcription_request (speech_file chunk) lang) = Inr (JString t)"
    and "\<not> (\<forall>c\<in>set t. isWhiteSpace c)"
    and "chat_completions_create api (correction_request t) = Inl err \<or>
         chat_completions_create api (correction_request t) = Inr (ChatCompletion []) \<or>
         chat_completions_create api (correction_request t) = Inr (ChatCompletion (Choice None # cs)) \<or>
         chat_completions_create api (correction_request t) = Inr (ChatCompletion (Choice (Some []) # cs))"
    and "w' = processChunk api clk lang chunk w \<or> w' = processChunk_001 api clk lang chunk w"
  shows "corrected_text api t = t \<and>
         calls w' = calls w @
           [TranscriptionsCreate (transcription_request (speech_file chunk) lang),
            ChatCompletionsCreate (correction_request t),
            ChatCompletionsCreate (translation_request t None)] \<and>
         transcripts w' = transcripts w @
           [\<lparr>id_item = now clk, original = t, translation = translated_text api t None,
             timestamp = toLocaleTimeString clk\<rparr>]"
proof -
  have c: "corrected_text api t = t"
    using assms(3) by (auto simp: corrected_text_def correctTranscript_def Let_def)
  have "processChunk api clk lang chunk w =
           handleNewTranscript clk t (translated_text api t None)
             (w\<lparr>calls := calls w @
                 [TranscriptionsCreate (transcription_request (speech_file chunk) lang),
                  ChatCompletionsCreate (correction_request t),
                  ChatCompletionsCreate (translation_request t None)]\<rparr>)"
    using processChunk_run [OF assms(1) nonblank_trim [OF assms(2)]] c by simp
  then show ?thesis
    using assms(4) processChunk_001_return [OF assms(1)] c
    by (auto simp: handleNewTranscript_transcripts handleNewTranscript_calls)
qed

theorem processChunk_correction_fallback_witness:
  "transcripts (processChunk
      (scripted_api (Inr (JString (js ''hello world''))) (Inl connection_error)
         (completion_of (js ''Bonjour le monde.'')))
      example_clock (js ''ko'') [0x52] initial) =
     [\<lparr>id_item = 1700000000000, original = js ''hello world'',
       translation = js ''Bonjour le monde.'', timestamp = js ''10:00:00 AM''\<rparr>] \<and>
   calls (processChunk
      (scripted_api (Inr (JString (js ''hello world''))) (Inl connection_error)
         (completion_of (js ''Bonjour le monde.'')))
      example_clock (js ''ko'') [0x52] initial) =
     [TranscriptionsCreate (transcription_request (speech_file [0x52]) (js ''ko'')),
      ChatCompletionsCreate (correction_request (js ''hello world'')),
      ChatCompletionsCreate (translation_request (js ''hello world'') None)]"
proof -
  let ?api = "scripted_api (Inr (JString (js ''hello world''))) (Inl connection_error)
         (completion_of (js ''Bonjour le monde.''))"
  have a: "transcriptions_create ?api (transcription_request (speech_file [0x52]) (js ''ko'')) =
             Inr (JString (js ''hello world''))"
    by (simp add: scripted_api_def)
  have b: "chat_completions_create ?api (correction_request (js ''hello world'')) = Inl connection_error \<or>
         chat_completions_create ?api (correction_request (js ''hello world'')) = Inr (ChatCompletion []) \<or>
         chat_completions_create ?api (correction_request (js ''hello world'')) = Inr (ChatCompletion (Choice None # [])) \<or>
         chat_completions_create ?api (correction_request (js ''hello world'')) = Inr (ChatCompletion (Choice (Some []) # []))"
    by (simp add: scripted_api_def correction_request_def)
  have c: "translated_text ?api (js ''hello world'') None = js ''Bonjour le monde.''"
    by (simp add: translated_text_def translateText_def translation_request_def scripted_api_def
          completion_of_def Let_def)
  show ?thesis
    using processChunk_correction_fallback [OF a hello_world_nonblank b,
        of "processChunk ?api example_clock (js ''ko'') [0x52] initial" example_clock initial] c
    by (simp add: initial_def example_clock_def)
qed

text \<open>
  C5. For every chunk that passed stage 1 and whose translation call raises, returns
  no choice, or returns a \<open>null\<close> or empty content, in both revisions: one transcript
  item is appended, its translation is the empty string and its original text is the
  corrected text, which is not empty.
\<close>

theorem processChunk_translation_fallback:
  assumes "transcriptions_create api (transcription_request (speech_file chunk) lang) = Inr (JString t)"
    and "\<not> (\<forall>c\<in>set t. isWhiteSpace c)"
    and "reply = chat_completions_create api (translation_request (corrected_text api t) None)"
    and "reply = Inl err \<or> reply = Inr (ChatCompletion []) \<or>
         reply = Inr (ChatCompletion (Choice None # cs)) \<or>
         reply = Inr (ChatCompletion (Choice (Some []) # cs))"
    and "w' = processChunk api clk lang chunk w \<or> w' = processChunk_001 api clk lang chunk w"
  shows "corrected_text api t \<noteq> [] \<and>
         transcripts w' = transcripts w @
           [\<lparr>id_item = now clk, original = corrected_text api t, translation = [],
             timestamp = toLocaleTimeString clk\<rparr>]"
proof -
  have tr: "translated_text api (corrected_text api t) None = []"
    using assms(3,4) by (auto simp: translated_text_def translateText_def Let_def)
  have "t \<noteq> []" using assms(2) by auto
  then have ne: "corrected_text api t \<noteq> []" by (rule corrected_text_nonempty)
  show ?thesis
    using assms(5) processChunk_001_return [OF assms(1)]
      processChunk_run [OF assms(1) nonblank_trim [OF assms(2)]] tr ne
    by (auto simp: handleNewTranscript_transcripts)
qed

theorem processChunk_translation_fallback_witness:
  "transcripts (processChunk_001
      (scripted_api (Inr (JString (js ''hello world''))) (completion_of (js ''Hello world.''))
         (Inr (ChatCompletion [Choice None])))
      example_clock (js ''ko'') [0x52] initial) =
     [\<lparr>id_item = 1700000000000, original = js ''Hello world.'', translation = [],
       timestamp = js ''10:00:00 AM''\<rparr>]"
proof -
  let ?api = "scripted_api (Inr (JString (js ''hello world''))) (completion_of (js ''Hello world.''))
         (Inr (ChatCompletion [Choice None]))"
  have a: "transcriptions_create ?api (transcription_request (speech_file [0x52]) (js ''ko'')) =
             Inr (JString (js ''hello world''))"
    by (simp add: scripted_api_def)
  have c: "corrected_text ?api (js ''hello world'') = js ''Hello world.''"
    by (simp add: corrected_text_def correctTranscript_def correction_request_def scripted_api_def
          completion_of_def Let_def)
  have b: "chat_completions_create ?api (translation_request (corrected_text ?api (js ''hello world'')) None) =
             Inr (ChatCompletion (Choice None # []))"
    by (simp add: scripted_api_def translation_request_def Let_def)
  show ?thesis
    using processChunk_translation_fallback [OF a hello_world_nonblank refl,
        where cs = "[]" and clk = example_clock and w = initial
          and w' = "processChunk_001 ?api example_clock (js ''ko'') [0x52] initial"] b c
    by (simp add: initial_def example_clock_def)
qed

text \<open>
  C9. \<open>processChunk\<close> calls \<open>translateText(corrected)\<close> with no target language. For
  every chunk and every selected language, in both revisions, the remote calls made are
  either the transcription alone or the transcription, the correction and a translation
  request whose system instruction asks for English.
\<close>

theorem processChunk_translates_to_English:
  assumes "w' = processChunk api clk lang chunk w \<or> w' = processChunk_001 api clk lang chunk w"
  shows "calls w' = calls w @ [TranscriptionsCreate (transcription_request (speech_file chunk) lang)] \<or>
         (\<exists>t text. calls w' = calls w @
            [TranscriptionsCreate (transcription_request (speech_file chunk) lang),
             ChatCompletionsCreate (correction_request t),
             ChatCompletionsCreate (translation_request text None)] \<and>
            translation_request text None =
              ChatRequest (js ''gpt-4o-mini'')
                [ChatMessage (js ''system'')
                   (js ''You are a professional translator. Translate the user input into English. If it is already English, just refine it slightly.''),
                 ChatMessage (js ''user'') text]
                None)"
proof (cases "transcriptions_create api (transcription_request (speech_file chunk) lang)")
  case (Inl err)
  then show ?thesis
    using assms by (auto simp: processChunk_001_raise processChunk_raise)
next
  case (Inr v)
  show ?thesis
  proof (cases "\<not> truthy v \<or> typeof v \<noteq> TString \<or> trim (the_string v) = []")
    case True
    then show ?thesis
      using assms Inr by (auto simp: processChunk_001_return processChunk_skip)
  next
    case False
    then obtain t where t: "v = JString t" by (cases v) auto
    with False have "trim t \<noteq> []" by simp
    from processChunk_run [OF Inr [unfolded t] this] show ?thesis
      using assms processChunk_001_return [OF Inr] translation_request_default
      by (auto simp: handleNewTranscript_calls)
  qed
qed

theorem processChunk_translates_to_English_witness:
  "calls (processChunk
      (scripted_api (Inr (JString (js ''hello world''))) (completion_of (js ''Hello world.''))
         (completion_of (js ''Bonjour le monde.'')))
      example_clock (js ''fr'') [0x52] initial) =
     [TranscriptionsCreate (transcription_request (speech_file [0x52]) (js ''fr'')),
      ChatCompletionsCreate (correction_request (js ''hello world'')),
      ChatCompletionsCreate
        (ChatRequest (js ''gpt-4o-mini'')
           [ChatMessage (js ''system'')
              (js ''You are a professional translator. Translate the user input into English. If it is already English, just refine it slightly.''),
            ChatMessage (js ''user'') (js ''Hello world.'')]
           None)]"
proof -
  let ?api = "scripted_api (Inr (JString (js ''hello world''))) (completion_of (js ''Hello world.''))
         (completion_of (js ''Bonjour le monde.''))"
  let ?w = "processChunk ?api example_clock (js ''fr'') [0x52] initial"
  have a: "transcriptions_create ?api (transcription_request (speech_file [0x52]) (js ''fr'')) =
             Inr (JString (js ''hello world''))"
    by (simp add: scripted_api_def)
  have c: "corrected_text ?api (js ''hello world'') = js ''Hello world.''"
    by (simp add: corrected_text_def correctTranscript_def correction_request_def scripted_api_def
          completion_of_def Let_def)
  have d: "calls ?w =
     [TranscriptionsCreate (transcription_request (speech_file [0x52]) (js ''fr'')),
      ChatCompletionsCreate (correction_request (js ''hello world'')),
      ChatCompletionsCreate (translation_request (js ''Hello world.'') None)]"
    by (simp add: processChunk_run [OF a nonblank_trim [OF hello_world_nonblank]] c
          handleNewTranscript_calls initial_def)
  have e: "calls ?w \<noteq> calls initial @ [TranscriptionsCreate (transcription_request (speech_file [0x52]) (js ''fr''))]"
    unfolding d by (simp add: initial_def)
  from processChunk_translates_to_English [of ?w ?api example_clock "js ''fr''" "[0x52]" initial] e
  obtain t u where
    "calls ?w = calls initial @
            [TranscriptionsCreate (transcription_request (speech_file [0x52]) (js ''fr'')),
             ChatCompletionsCreate (correction_request t),
             ChatCompletionsCreate (translation_request u None)]"
    and f: "translation_request u None =
              ChatRequest (js ''gpt-4o-mini'')
                [ChatMessage (js ''system'')
                   (js ''You are a professional translator. Translate the user input into English. If it is already English, just refine it slightly.''),
                 ChatMessage (js ''user'') u]
                None"
    by blast
  then have "translation_request u None = translation_request (js ''Hello world.'') None"
    unfolding d by (simp add: initial_def)
  then have "u = js ''Hello world.''"
    by (simp add: translation_request_def Let_def)
  with f d show ?thesis by simp
qed

text \<open>Only a \<open>dataavailable\<close> event writes the log, and it appends at most one item.\<close>

lemma processChunk_transcripts:
  "transcripts (processChunk api clk lang chunk w) = transcripts w \<or>
   (\<exists>a b. transcripts (processChunk api clk lang chunk w) =
      transcripts w @ [\<lparr>id_item = now clk, original = a, translation = b,
                         timestamp = toLocaleTimeString clk\<rparr>])"
proof (cases "transcriptions_create api (transcription_request (speech_file chunk) lang)")
  case (Inl err)
  show ?thesis unfolding processChunk_raise [OF Inl] by simp
next
  case (Inr v)
  show ?thesis
  proof (cases "\<not> truthy v \<or> typeof v \<noteq> TString \<or> trim (the_string v) = []")
    case True
    show ?thesis unfolding processChunk_skip [OF Inr True] by simp
  next
    case False
    then obtain t where t: "v = JString t" by (cases v) auto
    with False have "trim t \<noteq> []" by simp
    from processChunk_run [OF Inr [unfolded t] this] show ?thesis
      by (simp add: handleNewTranscript_transcripts)
  qed
qed

lemma processChunk_001_transcripts:
  "transcripts (processChunk_001 api clk lang chunk w) = transcripts w \<or>
   (\<exists>a b. transcripts (processChunk_001 api clk lang chunk w) =
      transcripts w @ [\<lparr>id_item = now clk, original = a, translation = b,
                         timestamp = toLocaleTimeString clk\<rparr>])"
proof (cases "transcriptions_create api (transcription_request (speech_file chunk) lang)")
  case (Inl err)
  show ?thesis
    unfolding processChunk_001_raise [OF Inl] processChunk_raise [OF Inl] by simp
next
  case (Inr v)
  show ?thesis
    unfolding processChunk_001_return [OF Inr]
    using processChunk_transcripts [of api clk lang chunk w] by simp
qed

lemma fire_transcripts:
  "transcripts (fire rv e w) = transcripts w \<or>
   (\<exists>api clk data a b. e = DataAvailable api clk data \<and>
      transcripts (fire rv e w) =
        transcripts w @ [\<lparr>id_item = now clk, original = a, translation = b,
                           timestamp = toLocaleTimeString clk\<rparr>])"
proof (cases e)
  case (Mount c)
  then show ?thesis by (cases rv) (simp_all add: mount_001_def)
next
  case (StartRecording host)
  obtain r w' where t: "try_startRecording host (w\<lparr>error := None\<rparr>) = (r, w')" by fastforce
  then have "transcripts w' = transcripts w"
    by (auto simp: try_startRecording_def Let_def split: sum.splits option.splits)
  then have "transcripts (startRecording host w) = transcripts w"
    "transcripts (startRecording_001 host w) = transcripts w"
    by (cases r; simp add: startRecording_def startRecording_001_def t)+
  then show ?thesis using StartRecording by (cases rv) simp_all
next
  case StopRecording
  then show ?thesis by (simp add: stopRecording_def split: option.splits)
next
  case TogglePause
  then show ?thesis by (simp add: togglePause_def split: option.splits)
next
  case DismissError
  then show ?thesis by (simp add: dismissError_def)
next
  case (DataAvailable api clk data)
  have "transcripts (ondataavailable api clk data w) = transcripts w \<or>
        (\<exists>a b. transcripts (ondataavailable api clk data w) =
           transcripts w @ [\<lparr>id_item = now clk, original = a, translation = b,
                              timestamp = toLocaleTimeString clk\<rparr>])"
    using processChunk_transcripts [of api clk _ data "w\<lparr>chunksRef := chunksRef w @ [data]\<rparr>"]
    by (simp add: ondataavailable_def split: option.splits)
  moreover have "transcripts (ondataavailable_001 api clk data w) = transcripts w \<or>
        (\<exists>a b. transcripts (ondataavailable_001 api clk data w) =
           transcripts w @ [\<lparr>id_item = now clk, original = a, translation = b,
                              timestamp = toLocaleTimeString clk\<rparr>])"
    using processChunk_001_transcripts [of api clk _ data "w\<lparr>chunksRef := chunksRef w @ [data]\<rparr>"]
    by (simp add: ondataavailable_001_def split: option.splits)
  ultimately show ?thesis using DataAvailable by (cases rv) auto
next
  case (CaptionTimeout t)
  then show ?thesis by (simp add: captionTimeout_def)
next
  case (SetLanguage l)
  then show ?thesis by (simp add: setLanguage_def)
qed

text \<open>
  C10. Whatever happens to the page, the transcript log either stays as it is or gains
  one item, appended by \<open>handleNewTranscript\<close>, whose id is the value of \<open>Date.now()\<close>
  read in that call. Two calls that read the same millisecond append two items with the
  same id, so the ids of the log are not distinct.
\<close>

theorem handleNewTranscript_id_is_clock:
  "(transcripts (fire rv e w) = transcripts w \<or>
    (\<exists>api clk data a b. e = DataAvailable api clk data \<and>
       transcripts (fire rv e w) =
         transcripts w @ [\<lparr>id_item = now clk, original = a, translation = b,
                            timestamp = toLocaleTimeString clk\<rparr>])) \<and>
   transcripts (handleNewTranscript \<lparr>now = ms, toLocaleTimeString = s\<rparr> a b w) =
     transcripts w @ [\<lparr>id_item = ms, original = a, translation = b, timestamp = s\<rparr>] \<and>
   map id_item (transcripts (handleNewTranscript \<lparr>now = ms, toLocaleTimeString = s'\<rparr> a' b'
                              (handleNewTranscript \<lparr>now = ms, toLocaleTimeString = s\<rparr> a b w))) =
     map id_item (transcripts w) @ [ms, ms] \<and>
   \<not> distinct (map id_item (transcripts (handleNewTranscript \<lparr>now = ms, toLocaleTimeString = s'\<rparr> a' b'
                              (handleNewTranscript \<lparr>now = ms, toLocaleTimeString = s\<rparr> a b w))))"
  using fire_transcripts [of rv e w] by (simp add: handleNewTranscript_transcripts)

theorem handleNewTranscript_id_is_clock_witness:
  "map id_item (transcripts (run AudioRecorder_tsx
      [StartRecording example_host,
       DataAvailable (scripted_api (Inr (JString (js ''hello world''))) (completion_of (js ''Hello world.''))
           (completion_of (js ''Bonjour le monde.''))) example_clock [0x52],
       DataAvailable (scripted_api (Inr (JString (js ''hello world''))) (completion_of (js ''Hello world.''))
           (completion_of (js ''Bonjour le monde.''))) example_clock [0x53]]
      initial)) = [1700000000000, 1700000000000]"
proof -
  let ?api = "scripted_api (Inr (JString (js ''hello world''))) (completion_of (js ''Hello world.''))
           (completion_of (js ''Bonjour le monde.''))"
  let ?w0 = "startRecording example_host initial"
  have s: "startRecording example_host initial = startRecording_001 example_host initial"
    by (simp add: startRecording_def startRecording_001_def initial_def)
  have a: "\<And>chunk. transcriptions_create ?api (transcription_request (speech_file chunk) (js ''ko'')) =
             Inr (JString (js ''hello world''))"
    by (simp add: scripted_api_def)
  have c: "corrected_text ?api (js ''hello world'') = js ''Hello world.''"
    by (simp add: corrected_text_def correctTranscript_def correction_request_def scripted_api_def
          completion_of_def Let_def)
  have d: "translated_text ?api (js ''Hello world.'') None = js ''Bonjour le monde.''"
    by (simp add: translated_text_def translateText_def translation_request_def scripted_api_def
          completion_of_def Let_def)
  have p: "\<And>clk chunk w. processChunk ?api clk (js ''ko'') chunk w =
      handleNewTranscript clk (js ''Hello world.'') (js ''Bonjour le monde.'')
        (w\<lparr>calls := calls w @
                 [TranscriptionsCreate (transcription_request (speech_file chunk) (js ''ko'')),
                  ChatCompletionsCreate (correction_request (js ''hello world'')),
                  ChatCompletionsCreate (translation_request (js ''Hello world.'') None)]\<rparr>)"
    using processChunk_run [OF a nonblank_trim [OF hello_world_nonblank]] by (simp add: c d)
  let ?item = "\<lparr>id_item = 1700000000000, original = js ''Hello world.'',
                translation = js ''Bonjour le monde.'', timestamp = js ''10:00:00 AM''\<rparr>"
  have step: "\<And>chunk w r. mediaRecorderRef w = Some r \<Longrightarrow> handler_language r = js ''ko'' \<Longrightarrow>
      chunk \<noteq> [] \<Longrightarrow>
      transcripts (ondataavailable ?api example_clock chunk w) = transcripts w @ [?item] \<and>
      mediaRecorderRef (ondataavailable ?api example_clock chunk w) = Some r"
    by (simp add: ondataavailable_def p handleNewTranscript_def example_clock_def)
  have w0: "mediaRecorderRef ?w0 = Some \<lparr>state = Recording, timeslice = Some CHUNK_INTERVAL,
                                       handler_language = js ''ko''\<rparr>"
    "transcripts ?w0 = []"
    unfolding s startRecording_001_example by (simp_all add: initial_def)
  have w1: "transcripts (ondataavailable ?api example_clock [0x52] ?w0) = [?item]"
    "mediaRecorderRef (ondataavailable ?api example_clock [0x52] ?w0) =
       Some \<lparr>state = Recording, timeslice = Some CHUNK_INTERVAL, handler_language = js ''ko''\<rparr>"
    using step [OF w0(1), of "[0x52]"] w0(2) by simp_all
  have "transcripts (ondataavailable ?api example_clock [0x53]
          (ondataavailable ?api example_clock [0x52] ?w0)) = [?item, ?item]"
    using step [OF w1(2), of "[0x53]"] w1(1) by simp
  then have "transcripts (run AudioRecorder_tsx
      [StartRecording example_host, DataAvailable ?api example_clock [0x52],
       DataAvailable ?api example_clock [0x53]] initial) = [?item, ?item]"
    by simp
  then show ?thesis
    using handleNewTranscript_id_is_clock [of AudioRecorder_tsx "DataAvailable ?api example_clock [0x52]" ?w0]
    by simp
qed

section \<open>Claims about the capture session\<close>

lemma errorMessage_nonempty: "errorMessage err \<noteq> []"
  by (simp add: errorMessage_def split: option.splits)

lemma try_startRecording_rejected:
  "getUserMedia host = Inl err \<Longrightarrow>
   try_startRecording host w = (Some err, w\<lparr>calls := calls w @ [GetUserMedia]\<rparr>)"
  by (simp add: try_startRecording_def Let_def)

text \<open>
  C6. For every call of \<open>startRecording\<close> in which \<open>getUserMedia\<close> rejects (in
  \<open>unnamed/part_001\<close>: when the credential gate lets the call reach it), nothing changes
  but the error and the trace: the recording flags stay as they were (false, from
  Idle), no recorder, stream, audio context or analyser is set, so a \<open>dataavailable\<close>
  event finds no handler, and the only outgoing call is the request for the microphone.
  The error is the non-empty message chosen by the \<open>catch\<close> block: device missing for
  \<open>NotFoundError\<close> or a message containing \<open>not found\<close>; otherwise permission denied
  for \<open>NotAllowedError\<close> and \<open>PermissionDeniedError\<close>, device busy for
  \<open>NotReadableError\<close>, and the generic message, with the error's own text if any, for
  the rest.
\<close>

theorem startRecording_acquisition_failure:
  assumes "getUserMedia host = Inl err"
    and "w' = startRecording host w \<or> (\<not> apiKeyMissing w \<and> w' = startRecording_001 host w)"
  shows "w' = w\<lparr>error := Some (errorMessage err), calls := calls w @ [GetUserMedia]\<rparr> \<and>
         isRecording w' = isRecording w \<and> isRecording_App w' = isRecording_App w \<and>
         isPaused w' = isPaused w \<and>
         error w' = Some (errorMessage err) \<and> errorMessage err \<noteq> [] \<and>
         mediaRecorderRef w' = mediaRecorderRef w \<and> streamRef w' = streamRef w \<and>
         audioContextRef w' = audioContextRef w \<and> analyser w' = analyser w \<and>
         (mediaRecorderRef w = None \<longrightarrow>
            ondataavailable api clk data w' = w' \<and> ondataavailable_001 api clk data w' = w') \<and>
         (name err = js ''NotFoundError'' \<or>
          (\<exists>m. message err = Some m \<and> includes_js m (js ''not found'')) \<longrightarrow>
            errorMessage err = js ''No microphone detected. Please connect a microphone and try again.'') \<and>
         (name err \<noteq> js ''NotFoundError'' \<and>
          \<not> (\<exists>m. message err = Some m \<and> includes_js m (js ''not found'')) \<longrightarrow>
            (name err = js ''NotAllowedError'' \<or> name err = js ''PermissionDeniedError'' \<longrightarrow>
               errorMessage err =
                 js ''Microphone access denied. Please allow microphone access in your browser settings.'') \<and>
            (name err = js ''NotReadableError'' \<longrightarrow>
               errorMessage err = js ''Microphone is in use by another application.'') \<and>
            (name err \<noteq> js ''NotAllowedError'' \<and> name err \<noteq> js ''PermissionDeniedError'' \<and>
             name err \<noteq> js ''NotReadableError'' \<longrightarrow>
               errorMessage err =
                 (case message err of
                    None \<Rightarrow> js ''Unable to access microphone.''
                  | Some m \<Rightarrow> if m \<noteq> [] then js ''Microphone error: '' @ m
                              else js ''Unable to access microphone.'')))"
proof -
  have eq: "w' = w\<lparr>error := Some (errorMessage err), calls := calls w @ [GetUserMedia]\<rparr>"
    using assms(2) try_startRecording_rejected [OF assms(1)]
    by (auto simp: startRecording_def startRecording_001_def)
  have frame: "isRecording w' = isRecording w \<and> isRecording_App w' = isRecording_App w \<and>
         isPaused w' = isPaused w \<and> error w' = Some (errorMessage err) \<and>
         mediaRecorderRef w' = mediaRecorderRef w \<and> streamRef w' = streamRef w \<and>
         audioContextRef w' = audioContextRef w \<and> analyser w' = analyser w"
    by (simp add: eq)
  have handler: "mediaRecorderRef w = None \<longrightarrow>
            ondataavailable api clk data w' = w' \<and> ondataavailable_001 api clk data w' = w'"
    using frame by (simp add: ondataavailable_def ondataavailable_001_def)
  have kinds: "(name err = js ''NotFoundError'' \<or>
          (\<exists>m. message err = Some m \<and> includes_js m (js ''not found'')) \<longrightarrow>
            errorMessage err = js ''No microphone detected. Please connect a microphone and try again.'') \<and>
         (name err \<noteq> js ''NotFoundError'' \<and>
          \<not> (\<exists>m. message err = Some m \<and> includes_js m (js ''not found'')) \<longrightarrow>
            (name err = js ''NotAllowedError'' \<or> name err = js ''PermissionDeniedError'' \<longrightarrow>
               errorMessage err =
                 js ''Microphone access denied. Please allow microphone access in your browser settings.'') \<and>
            (name err = js ''NotReadableError'' \<longrightarrow>
               errorMessage err = js ''Microphone is in use by another application.'') \<and>
            (name err \<noteq> js ''NotAllowedError'' \<and> name err \<noteq> js ''PermissionDeniedError'' \<and>
             name err \<noteq> js ''NotReadableError'' \<longrightarrow>
               errorMessage err =
                 (case message err of
                    None \<Rightarrow> js ''Unable to access microphone.''
                  | Some m \<Rightarrow> if m \<noteq> [] then js ''Microphone error: '' @ m
                              else js ''Unable to access microphone.'')))"
    by (auto simp: errorMessage_def split: option.splits)
  show ?thesis
    using eq frame handler kinds errorMessage_nonempty [of err] by blast
qed

theorem startRecording_acquisition_failure_witness:
  "startRecording_001
     \<lparr>getUserMedia = Inl (JsError (js ''NotAllowedError'') (Some (js ''Permission denied''))),
      throws = (\<lambda>step. None)\<rparr> initial =
   initial\<lparr>error := Some (js ''Microphone access denied. Please allow microphone access in your browser settings.''),
           calls := [GetUserMedia]\<rparr> \<and>
   \<not> isRecording (startRecording_001
     \<lparr>getUserMedia = Inl (JsError (js ''NotAllowedError'') (Some (js ''Permission denied''))),
      throws = (\<lambda>step. None)\<rparr> initial) \<and>
   mediaRecorderRef (startRecording_001
     \<lparr>getUserMedia = Inl (JsError (js ''NotAllowedError'') (Some (js ''Permission denied''))),
      throws = (\<lambda>step. None)\<rparr> initial) = None"
proof -
  let ?err = "JsError (js ''NotAllowedError'') (Some (js ''Permission denied''))"
  let ?host = "\<lparr>getUserMedia = Inl ?err, throws = (\<lambda>step. None)\<rparr>"
  have a: "getUserMedia ?host = Inl ?err" by simp
  have b: "\<not> apiKeyMissing initial" "\<not> isRecording initial" "mediaRecorderRef initial = None"
    "calls initial = []"
    by (simp_all add: initial_def)
  have c: "name ?err \<noteq> js ''NotFoundError''" "name ?err = js ''NotAllowedError''"
    "\<not> (\<exists>m. message ?err = Some m \<and> includes_js m (js ''not found''))"
    by (simp_all add: js_def)
  show ?thesis
    using startRecording_acquisition_failure [OF a, of "startRecording_001 ?host initial" initial] b c
    by simp
qed

text \<open>What a \<open>dataavailable\<close> event leaves alone.\<close>

lemma processChunk_session: "session_fields (processChunk api clk lang chunk w) = session_fields w"
proof (cases "transcriptions_create api (transcription_request (speech_file chunk) lang)")
  case (Inl err)
  show ?thesis unfolding processChunk_raise [OF Inl] by (simp add: session_fields_def)
next
  case (Inr v)
  show ?thesis
  proof (cases "\<not> truthy v \<or> typeof v \<noteq> TString \<or> trim (the_string v) = []")
    case True
    show ?thesis unfolding processChunk_skip [OF Inr True] by (simp add: session_fields_def)
  next
    case False
    then obtain t where t: "v = JString t" by (cases v) auto
    with False have "trim t \<noteq> []" by simp
    from processChunk_run [OF Inr [unfolded t] this] show ?thesis
      by (simp add: handleNewTranscript_def Let_def session_fields_def)
  qed
qed

lemma processChunk_001_session:
  "session_fields (processChunk_001 api clk lang chunk w) = session_fields w"
proof (cases "transcriptions_create api (transcription_request (speech_file chunk) lang)")
  case (Inl err)
  show ?thesis
    unfolding processChunk_001_raise [OF Inl]
    using processChunk_session [of api clk lang chunk w] by (simp add: session_fields_def)
next
  case (Inr v)
  show ?thesis
    unfolding processChunk_001_return [OF Inr]
    using processChunk_session [of api clk lang chunk w] by (simp add: session_fields_def)
qed

lemma processChunk_calls:
  "GetUserMedia \<in> set (calls (processChunk api clk lang chunk w)) \<longleftrightarrow> GetUserMedia \<in> set (calls w)"
proof (cases "transcriptions_create api (transcription_request (speech_file chunk) lang)")
  case (Inl err)
  show ?thesis unfolding processChunk_raise [OF Inl] by simp
next
  case (Inr v)
  show ?thesis
  proof (cases "\<not> truthy v \<or> typeof v \<noteq> TString \<or> trim (the_string v) = []")
    case True
    show ?thesis unfolding processChunk_skip [OF Inr True] by simp
  next
    case False
    then obtain t where t: "v = JString t" by (cases v) auto
    with False have "trim t \<noteq> []" by simp
    from processChunk_run [OF Inr [unfolded t] this] show ?thesis
      by (simp add: handleNewTranscript_calls)
  qed
qed

lemma processChunk_001_calls:
  "GetUserMedia \<in> set (calls (processChunk_001 api clk lang chunk w)) \<longleftrightarrow> GetUserMedia \<in> set (calls w)"
proof (cases "transcriptions_create api (transcription_request (speech_file chunk) lang)")
  case (Inl err)
  show ?thesis unfolding processChunk_001_raise [OF Inl] using processChunk_calls by simp
next
  case (Inr v)
  show ?thesis unfolding processChunk_001_return [OF Inr] using processChunk_calls by simp
qed

lemma ondataavailable_session: "session_fields (ondataavailable api clk data w) = session_fields w"
  using processChunk_session [of api clk _ data "w\<lparr>chunksRef := chunksRef w @ [data]\<rparr>"]
  by (simp add: ondataavailable_def session_fields_def split: option.splits)

lemma ondataavailable_001_session:
  "session_fields (ondataavailable_001 api clk data w) = session_fields w"
  using processChunk_001_session [of api clk _ data "w\<lparr>chunksRef := chunksRef w @ [data]\<rparr>"]
  by (simp add: ondataavailable_001_def session_fields_def split: option.splits)

lemma ondataavailable_calls:
  "GetUserMedia \<in> set (calls (ondataavailable api clk data w)) \<longleftrightarrow> GetUserMedia \<in> set (calls w)"
  using processChunk_calls [of api clk _ data "w\<lparr>chunksRef := chunksRef w @ [data]\<rparr>"]
  by (simp add: ondataavailable_def split: option.splits)

lemma ondataavailable_001_calls:
  "GetUserMedia \<in> set (calls (ondataavailable_001 api clk data w)) \<longleftrightarrow> GetUserMedia \<in> set (calls w)"
  using processChunk_001_calls [of api clk _ data "w\<lparr>chunksRef := chunksRef w @ [data]\<rparr>"]
  by (simp add: ondataavailable_001_def split: option.splits)

text \<open>
  \<open>startRecording\<close> sets \<open>isRecording\<close> last and only \<open>stopRecording\<close> unsets
  anything, so the session is held in every reachable state.
\<close>

lemma session_held_fields:
  "session_fields w' = session_fields w \<Longrightarrow> session_held w \<Longrightarrow> session_held w'"
  by (simp add: session_fields_def session_held_def)

lemma try_startRecording_held:
  "session_held w \<Longrightarrow> try_startRecording host w = (r, w') \<Longrightarrow> session_held (w'\<lparr>error := e\<rparr>)"
  by (auto simp: try_startRecording_def session_held_def Let_def split: sum.splits option.splits)

lemma fire_held: "session_held w \<Longrightarrow> session_held (fire rv e w)"
proof (cases e)
  case (Mount c)
  then show "session_held w \<Longrightarrow> ?thesis"
    by (cases rv) (auto simp: mount_001_def session_held_def)
next
  case (StartRecording host)
  assume h: "session_held w"
  then have h': "session_held (w\<lparr>error := None\<rparr>)" by (simp add: session_held_def)
  obtain r w' where t: "try_startRecording host (w\<lparr>error := None\<rparr>) = (r, w')" by fastforce
  have a: "session_held (startRecording host w)"
    using try_startRecording_held [OF h' t, of "error w'"]
      try_startRecording_held [OF h' t]
    by (cases r) (simp_all add: startRecording_def t)
  have "session_held (startRecording_001 host w)"
  proof (cases "apiKeyMissing w")
    case True
    then show ?thesis using h by (simp add: startRecording_001_def session_held_def)
  next
    case False
    then have "startRecording_001 host w = startRecording host w"
      by (simp add: startRecording_001_def startRecording_def)
    then show ?thesis using a by simp
  qed
  with a StartRecording show ?thesis by (cases rv) simp_all
next
  case StopRecording
  then show "session_held w \<Longrightarrow> ?thesis"
    by (auto simp: stopRecording_def session_held_def split: option.splits)
next
  case TogglePause
  then show "session_held w \<Longrightarrow> ?thesis"
    by (auto simp: togglePause_def session_held_def split: option.splits)
next
  case DismissError
  then show "session_held w \<Longrightarrow> ?thesis"
    by (simp add: dismissError_def session_held_def)
next
  case (DataAvailable api clk data)
  then show "session_held w \<Longrightarrow> ?thesis"
    using session_held_fields [OF ondataavailable_session]
      session_held_fields [OF ondataavailable_001_session]
    by (cases rv) auto
next
  case (CaptionTimeout t)
  then show "session_held w \<Longrightarrow> ?thesis"
    by (simp add: captionTimeout_def session_held_def)
next
  case (SetLanguage l)
  then show "session_held w \<Longrightarrow> ?thesis"
    by (simp add: setLanguage_def session_held_def)
qed

lemma run_held: "session_held w \<Longrightarrow> session_held (run rv es w)"
  by (induction es arbitrary: w) (simp_all add: fire_held)

lemma initial_held: "session_held initial"
  by (simp add: session_held_def initial_def)

text \<open>
  C7. In every state the page can reach, \<open>togglePause\<close> (the pause and the resume
  button) leaves the stream with its tracks, the audio context and the published
  analyser as they are, and while a session is recording all three are set. From such a
  state \<open>stopRecording\<close> ends every track of the stream, closes the audio context and
  resets the published analyser to \<open>null\<close>.
\<close>

theorem pause_keeps_stop_releases:
  assumes "w = run rv es initial"
  shows "streamRef (togglePause w) = streamRef w \<and>
         audioContextRef (togglePause w) = audioContextRef w \<and>
         analyser (togglePause w) = analyser w \<and>
         (isRecording w \<longrightarrow>
            streamRef w \<noteq> None \<and> audioContextRef w \<noteq> None \<and> analyser w \<noteq> None \<and>
            (\<exists>s s'. streamRef w = Some s \<and> streamRef (stopRecording w) = Some s' \<and>
                    length (getTracks s') = length (getTracks s) \<and>
                    (\<forall>track\<in>set (getTracks s'). track = Ended)) \<and>
            audioContextRef (stopRecording w) = Some Closed \<and>
            analyser (stopRecording w) = None \<and>
            \<not> isRecording (stopRecording w))"
proof -
  have "session_held w"
    unfolding assms by (rule run_held [OF initial_held])
  then have stop: "isRecording w \<longrightarrow>
            streamRef w \<noteq> None \<and> audioContextRef w \<noteq> None \<and> analyser w \<noteq> None \<and>
            (\<exists>s s'. streamRef w = Some s \<and> streamRef (stopRecording w) = Some s' \<and>
                    length (getTracks s') = length (getTracks s) \<and>
                    (\<forall>track\<in>set (getTracks s'). track = Ended)) \<and>
            audioContextRef (stopRecording w) = Some Closed \<and>
            analyser (stopRecording w) = None \<and>
            \<not> isRecording (stopRecording w)"
    by (auto simp: session_held_def stopRecording_def)
  have "streamRef (togglePause w) = streamRef w \<and>
         audioContextRef (togglePause w) = audioContextRef w \<and>
         analyser (togglePause w) = analyser w"
    by (simp add: togglePause_def split: option.splits)
  with stop show ?thesis by blast
qed

theorem pause_keeps_stop_releases_witness:
  "isRecording (run AudioRecorder_tsx [StartRecording example_host, TogglePause] initial) \<and>
   streamRef (run AudioRecorder_tsx [StartRecording example_host, TogglePause] initial) =
     Some (MediaStream [Live]) \<and>
   streamRef (stopRecording (run AudioRecorder_tsx [StartRecording example_host, TogglePause] initial)) =
     Some (MediaStream [Ended]) \<and>
   audioContextRef (stopRecording (run AudioRecorder_tsx [StartRecording example_host, TogglePause] initial)) =
     Some Closed \<and>
   analyser (stopRecording (run AudioRecorder_tsx [StartRecording example_host, TogglePause] initial)) = None"
proof -
  let ?w = "run AudioRecorder_tsx [StartRecording example_host, TogglePause] initial"
  have w: "?w = initial\<lparr>calls := [GetUserMedia],
             streamRef := Some (MediaStream [Live]),
             audioContextRef := Some Running,
             analyser := Some (AnalyserNode 256),
             mediaRecorderRef := Some \<lparr>state = Paused, timeslice = Some CHUNK_INTERVAL,
                                       handler_language = js ''ko''\<rparr>,
             chunksRef := [],
             isRecording := True,
             isRecording_App := True,
             isPaused := True\<rparr>"
    by (simp add: startRecording_def try_startRecording_def example_host_def initial_def Let_def
          togglePause_def)
  have a: "isRecording ?w" "streamRef ?w = Some (MediaStream [Live])"
    unfolding w by simp_all
  have b: "streamRef (stopRecording ?w) = Some (MediaStream [Ended])"
    unfolding w by (simp add: stopRecording_def)
  show ?thesis
    using pause_keeps_stop_releases [of ?w AudioRecorder_tsx
        "[StartRecording example_host, TogglePause]"] a b
    by simp
qed

section \<open>The credential check of unnamed/part_001\<close>

lemma fire_blocked:
  assumes "apiKeyMissing w" "\<not> isRecording w" "GetUserMedia \<notin> set (calls w)"
  shows "apiKeyMissing (fire Part_001 e w) \<and> \<not> isRecording (fire Part_001 e w) \<and>
         GetUserMedia \<notin> set (calls (fire Part_001 e w))"
proof (cases e)
  case (DataAvailable api clk data)
  have "session_fields (fire Part_001 e w) = session_fields w"
    using DataAvailable ondataavailable_001_session by simp
  then show ?thesis
    using assms DataAvailable by (simp add: session_fields_def ondataavailable_001_calls)
qed (use assms in \<open>auto simp: mount_001_def startRecording_001_def stopRecording_def
       togglePause_def dismissError_def captionTimeout_def setLanguage_def split: option.splits\<close>)

lemma run_blocked:
  assumes "apiKeyMissing w" "\<not> isRecording w" "GetUserMedia \<notin> set (calls w)"
  shows "apiKeyMissing (run Part_001 es w) \<and> \<not> isRecording (run Part_001 es w) \<and>
         GetUserMedia \<notin> set (calls (run Part_001 es w))"
  using assms by (induction es arbitrary: w) (simp_all add: fire_blocked)

text \<open>
  C2, as stated, fails: with the credential missing at mount, \<open>startRecording\<close> of
  \<open>unnamed/part_001\<close> returns before \<open>getUserMedia\<close>, even where the browser would grant
  the microphone.
\<close>

theorem startRecording_001_blocked_counterexample:
  "apiKeyMissing (mount_001 False initial) \<and>
   GetUserMedia \<notin> set (calls (startRecording_001 example_host (mount_001 False initial))) \<and>
   \<not> isRecording (startRecording_001 example_host (mount_001 False initial)) \<and>
   GetUserMedia \<in> set (calls (startRecording_001 example_host (mount_001 True initial))) \<and>
   isRecording (startRecording_001 example_host (mount_001 True initial))"
proof -
  have a: "mount_001 True initial = initial" "mount_001 False initial = initial\<lparr>apiKeyMissing := True\<rparr>"
    by (simp_all add: mount_001_def)
  have b: "startRecording_001 example_host (initial\<lparr>apiKeyMissing := True\<rparr>) =
      initial\<lparr>apiKeyMissing := True,
             error := Some (js ''OpenAI API key is not configured. Transcription will not work.'')\<rparr>"
    by (simp add: startRecording_001_def)
  show ?thesis
    unfolding a b startRecording_001_example by (simp add: initial_def)
qed

text \<open>
  C2, amended. When \<open>isApiKeyConfigured()\<close> is false at mount, \<open>apiKeyMissing\<close> is set;
  from any idle state where it is set, it stays set whatever happens, the warning is
  rendered exactly when no error toast is, \<open>startRecording\<close> sets the error to the
  message that the key is not configured and changes nothing else, and no sequence of
  events requests the microphone or starts a recording.
\<close>

theorem startRecording_001_credential_gate:
  assumes "w = run Part_001 es (mount_001 False initial)"
  shows "apiKeyMissing w \<and> \<not> isRecording w \<and> GetUserMedia \<notin> set (calls w) \<and>
         apiKeyWarning_001 w = (errorToast w = None) \<and>
         startRecording_001 host w =
           w\<lparr>error := Some (js ''OpenAI API key is not configured. Transcription will not work.'')\<rparr>"
proof -
  have "apiKeyMissing (mount_001 False initial)" "\<not> isRecording (mount_001 False initial)"
    "GetUserMedia \<notin> set (calls (mount_001 False initial))"
    by (simp_all add: mount_001_def initial_def)
  then have "apiKeyMissing w \<and> \<not> isRecording w \<and> GetUserMedia \<notin> set (calls w)"
    unfolding assms by (rule run_blocked)
  then show ?thesis
    by (simp add: apiKeyWarning_001_def startRecording_001_def)
qed

theorem startRecording_001_credential_gate_witness:
  "startRecording_001 example_host (run Part_001 [] (mount_001 False initial)) =
     initial\<lparr>apiKeyMissing := True,
             error := Some (js ''OpenAI API key is not configured. Transcription will not work.'')\<rparr> \<and>
   apiKeyWarning_001 (run Part_001 [] (mount_001 False initial)) \<and>
   \<not> apiKeyWarning_001 (run Part_001 [StartRecording example_host] (mount_001 False initial)) \<and>
   apiKeyWarning_001 (run Part_001 [StartRecording example_host, DismissError] (mount_001 False initial)) \<and>
   calls (run Part_001 [StartRecording example_host, DismissError] (mount_001 False initial)) = []"
proof -
  have a: "run Part_001 [] (mount_001 False initial) = initial\<lparr>apiKeyMissing := True\<rparr>"
    by (simp add: mount_001_def)
  have b: "run Part_001 [StartRecording example_host] (mount_001 False initial) =
      initial\<lparr>apiKeyMissing := True,
             error := Some (js ''OpenAI API key is not configured. Transcription will not work.'')\<rparr>"
    by (simp add: mount_001_def startRecording_001_def)
  have c: "run Part_001 [StartRecording example_host, DismissError] (mount_001 False initial) =
      initial\<lparr>apiKeyMissing := True, error := None\<rparr>"
    by (simp add: mount_001_def startRecording_001_def dismissError_def)
  have d: "errorToast (initial\<lparr>apiKeyMissing := True\<rparr>) = None"
    "errorToast (initial\<lparr>apiKeyMissing := True, error := None\<rparr>) = None"
    "errorToast (initial\<lparr>apiKeyMissing := True,
             error := Some (js ''OpenAI API key is not configured. Transcription will not work.'')\<rparr>) \<noteq> None"
    "calls (initial\<lparr>apiKeyMissing := True, error := None\<rparr>) = []"
    by (simp_all add: errorToast_def initial_def)
  show ?thesis
    using startRecording_001_credential_gate [of "run Part_001 [] (mount_001 False initial)" "[]" example_host]
      startRecording_001_credential_gate [of "run Part_001 [StartRecording example_host] (mount_001 False initial)"
         "[StartRecording example_host]"]
      startRecording_001_credential_gate [of "run Part_001 [StartRecording example_host, DismissError] (mount_001 False initial)"
         "[StartRecording example_host, DismissError]"]
      d
    unfolding a b c by simp
qed

section \<open>The visualizer\<close>

text \<open>The loop of \<open>draw\<close> sums every bin, so \<open>average\<close> is the mean energy.\<close>

lemma foldl_sum: "foldl (\<lambda>sum b. sum + real (unat b)) s xs = s + real (sum_list (map unat xs))"
  by (induction xs arbitrary: s) simp_all

lemma average_mean:
  "average dataArray = real (sum_list (map unat dataArray)) / real (length dataArray)"
  unfolding average_def foldl_sum by simp

text \<open>The remainder of a dividend that is not negative, and of one that is.\<close>

lemma js_rem_nonneg: "0 \<le> f \<Longrightarrow> 0 < n \<Longrightarrow> js_rem f n = f mod n"
  by (simp add: js_rem_def sgn_if)

lemma js_rem_neg: "f < 0 \<Longrightarrow> 0 < n \<Longrightarrow> js_rem f n = - ((- f) mod n)"
  by (simp add: js_rem_def sgn_if)

lemma js_rem_small_neg: "- n < f \<Longrightarrow> f < 0 \<Longrightarrow> js_rem f n = f"
  by (simp add: js_rem_def sgn_if)

text \<open>
  From \<open>-\<pi>\<close> upwards the angle selects a bin of the array, whatever the number of
  turns.
\<close>

lemma binIndex_in_range:
  assumes "- pi \<le> a" "0 < n"
  shows "0 \<le> binIndex n a \<and> binIndex n a < int n"
proof -
  define f where "f = \<lfloor>((a + pi) / (2 * pi)) * real n\<rfloor>"
  have b: "binIndex n a = js_rem f (int n)"
    by (simp only: binIndex_def f_def)
  have "0 \<le> ((a + pi) / (2 * pi)) * real n"
    using assms by simp
  then have "0 \<le> f" unfolding f_def by simp
  then have "js_rem f (int n) = f mod int n"
    using assms(2) by (simp add: js_rem_nonneg)
  then show ?thesis
    unfolding b using assms(2) by simp
qed

text \<open>
  Below \<open>-\<pi>\<close> the floor is negative and \<open>%\<close> keeps its sign: the index is never
  positive, and unless it is 0 it lies outside the array, where the value read is 0.
\<close>

lemma binIndex_negative_angle:
  assumes "a < - pi" "0 < n"
  shows "binIndex n a \<le> 0"
proof -
  define x where "x = (a + pi) / (2 * pi)"
  define f where "f = \<lfloor>x * real n\<rfloor>"
  have b: "binIndex n a = js_rem f (int n)"
    by (simp only: binIndex_def f_def x_def)
  have "a + pi < 0" using assms(1) by simp
  then have "x < 0"
    unfolding x_def using pi_gt_zero by (simp add: divide_neg_pos)
  then have "x * real n < 0"
    using assms(2) mult_neg_pos [of x "real n"] by simp
  then have "f < 0" unfolding f_def by linarith
  then have "js_rem f (int n) = - ((- f) mod int n)"
    using assms(2) by (simp add: js_rem_neg)
  moreover have "0 \<le> (- f) mod int n" using assms(2) by simp
  ultimately show ?thesis
    unfolding b by simp
qed

lemma freqValue_negative_index: "i < 0 \<Longrightarrow> freqValue dataArray i = 0"
  by (simp add: freqValue_def)

text \<open>Every frame advances the angle by the speed.\<close>

lemma frames_angle: "angle (frames fs d) = angle d + real (length fs) * speed d"
  and frames_baseR: "baseR (frames fs d) = baseR d"
  and frames_speed: "speed (frames fs d) = speed d"
proof -
  have "angle (frames fs d) = angle d + real (length fs) * speed d \<and>
        baseR (frames fs d) = baseR d \<and> speed (frames fs d) = speed d"
    by (induction fs arbitrary: d) (simp_all add: draw_dot_def Let_def algebra_simps)
  then show "angle (frames fs d) = angle d + real (length fs) * speed d"
    "baseR (frames fs d) = baseR d" "speed (frames fs d) = speed d"
    by simp_all
qed

lemma binIndex_minus_4: "- 64 \<le> binIndex 128 (- 4) \<and> binIndex 128 (- 4) < 0"
proof -
  define x where "x = ((- 4 + pi) / (2 * pi)) * real (128::nat)"
  have b: "binIndex 128 (- 4) = js_rem \<lfloor>x\<rfloor> (int 128)"
    by (simp only: binIndex_def x_def)
  have x: "x = 64 - 256 / pi"
    unfolding x_def using pi_gt_zero by (simp add: field_simps)
  have "256 / pi \<le> 128" using pi_ge_two by (simp add: field_simps)
  moreover have "64 < 256 / pi" using pi_less_4 pi_gt_zero by (simp add: field_simps)
  ultimately have "- 64 \<le> x" "x < 0" unfolding x by linarith+
  then have f: "- 64 \<le> \<lfloor>x\<rfloor>" "\<lfloor>x\<rfloor> < 0" by linarith+
  then have "js_rem \<lfloor>x\<rfloor> (int 128) = \<lfloor>x\<rfloor>"
    by (simp add: js_rem_small_neg)
  with f show ?thesis unfolding b by simp
qed

lemma average_loud: "average (replicate 128 255) = 255"
proof -
  have "map unat (replicate 128 (255 :: 8 word)) = replicate 128 255" by simp
  then show ?thesis by (simp add: average_mean sum_list_replicate)
qed

text \<open>
  C8. The radius is \<open>baseR * scale + (freqValue / 255) * 40\<close> with
  \<open>scale = 1 + (mean / 128) * 1.5\<close>, but \<open>freqValue\<close> is not always the energy of a
  bin. A dot created at angle 0 with speed -0.01 and base radius 50 stands at angle -4
  after 400 frames; its index is negative, so with all 128 bins at 255 the value read
  is 0 and the radius is \<open>50 * scale\<close>, not \<open>50 * scale + 40\<close>.
\<close>

theorem currentRadius_negative_angle:
  "angle (frames (replicate 400 (replicate 128 255)) (new_dot 0 0 0)) = - 4 \<and>
   baseR (frames (replicate 400 (replicate 128 255)) (new_dot 0 0 0)) = 50 \<and>
   binIndex 128 (- 4) < 0 \<and>
   freqValue (replicate 128 255) (binIndex 128 (- 4)) = 0 \<and>
   scale (replicate 128 255) = 1 + (255 / 128) * 1.5 \<and>
   currentRadius (replicate 128 255) (frames (replicate 400 (replicate 128 255)) (new_dot 0 0 0)) =
     50 * scale (replicate 128 255) \<and>
   currentRadius (replicate 128 255) (frames (replicate 400 (replicate 128 255)) (new_dot 0 0 0)) \<noteq>
     50 * scale (replicate 128 255) + (255 / 255) * 40"
proof -
  let ?d = "frames (replicate 400 (replicate 128 255)) (new_dot 0 0 0)"
  have a: "angle ?d = - 4"
    by (simp add: frames_angle new_dot_def)
  have b: "baseR ?d = 50"
    by (simp add: frames_baseR new_dot_def)
  have f: "freqValue (replicate 128 255) (binIndex 128 (- 4)) = 0"
    using binIndex_minus_4 by (simp add: freqValue_negative_index)
  have r: "currentRadius (replicate 128 255) ?d = 50 * scale (replicate 128 255)"
    by (simp add: currentRadius_def a b f)
  show ?thesis
    using a b f r binIndex_minus_4 by (simp add: scale_def average_loud)
qed

end
